theory Spec2Isabelle
  imports Complex_Main
begin

section \<open>The CLT payroll engine of \<^verbatim>\<open>src/lib/calculator.ts\<close>\<close>

text \<open>
  The engine is six pure functions on TypeScript \<^verbatim>\<open>number\<close>s. A \<^verbatim>\<open>number\<close> is
  modelled as a \<^typ>\<open>real\<close>: every operation is the exact one, and the rounding of
  IEEE doubles is not part of the model. Default parameters are written out at each call.
\<close>

subsection \<open>Result structures\<close>

record SalaryResult =
  grossSalary :: real
  inss :: real
  irrf :: real
  netSalary :: real
  fgts :: real
  discounts :: real

text \<open>
  The two optional fields of \<^verbatim>\<open>VacationResult\<close> are set by every return of
  \<^verbatim>\<open>calculateVacation\<close>, so they are plain fields here.
\<close>

record VacationResult =
  baseSalary :: real
  vacationValue :: real
  oneThirdBonus :: real
  grossTotal :: real
  inss :: real
  irrf :: real
  netTotal :: real
  abonoPecuniario :: real
  abonoOneThird :: real

record OvertimeResult =
  hourlyRate :: real
  overtimeValue :: real
  totalValue :: real

record TerminationResult =
  salaryBalance :: real
  proportionalThirteenth :: real
  proportionalVacation :: real
  vacationOneThird :: real
  noticePeriod :: real
  fgtsFine :: real
  grossTotal :: real
  inss :: real
  irrf :: real
  netTotal :: real

datatype TerminationType =
  sem_justa_causa | com_justa_causa | pedido_demissao | comum_acordo

text \<open>
  A JavaScript \<^verbatim>\<open>Date\<close>, as far as the engine observes it: the four getters it calls.
  \<open>getTime\<close> is in milliseconds, \<open>getMonth\<close> counts from 0 as in JavaScript, and the
  calendar fields are whatever the host's time zone makes of the instant, so they are
  fields of their own.
\<close>

record Date =
  getTime :: int
  getFullYear :: int
  getMonth :: int
  getDate :: int

subsection \<open>The two progressive tables\<close>

definition calculateINSS :: "real \<Rightarrow> real" where
  "calculateINSS salary =
     (if salary \<le> 1412 then salary * 0.075
      else if salary \<le> 2666.68 then (salary - 1412) * 0.09 + 105.9
      else if salary \<le> 4000.03 then (salary - 2666.68) * 0.12 + 105.9 + 112.92
      else if salary \<le> 7786.02 then (salary - 4000.03) * 0.14 + 105.9 + 112.92 + 160.00
      else 908.85)"

definition calculateIRRF :: "real \<Rightarrow> real \<Rightarrow> real \<Rightarrow> real" where
  "calculateIRRF salary inss_paid dependents =
     (let base = salary - inss_paid - (dependents * 189.59) in
      if base \<le> 2259.20 then 0
      else if base \<le> 2826.65 then (base * 0.075) - 169.44
      else if base \<le> 3751.05 then (base * 0.15) - 381.44
      else if base \<le> 4664.68 then (base * 0.225) - 662.77
      else (base * 0.275) - 896.00)"

subsection \<open>Salary, vacation and overtime\<close>

definition calculateSalary :: "real \<Rightarrow> real \<Rightarrow> real \<Rightarrow> SalaryResult" where
  "calculateSalary gross dependents otherDiscounts =
     (let inss_v = calculateINSS gross;
          irrf_v = calculateIRRF gross inss_v dependents;
          fgts_v = gross * 0.08;
          netSalary_v = gross - inss_v - irrf_v - otherDiscounts
      in \<lparr> grossSalary = gross,
           SalaryResult.inss = inss_v,
           SalaryResult.irrf = irrf_v,
           netSalary = netSalary_v,
           fgts = fgts_v,
           discounts = inss_v + irrf_v + otherDiscounts \<rparr>)"

definition calculateVacation ::
  "real \<Rightarrow> real \<Rightarrow> bool \<Rightarrow> real \<Rightarrow> real \<Rightarrow> real \<Rightarrow> VacationResult" where
  "calculateVacation salary days sellTenDays dependents unusedVacationDays bonuses =
     (let baseForVacation = salary + bonuses;
          dailyRate = baseForVacation / 30;
          vacationValue_v = dailyRate * days;
          oneThirdBonus_v = vacationValue_v / 3;
          unusedVacationValue = dailyRate * unusedVacationDays;
          unusedVacationOneThird = unusedVacationValue / 3;
          abonoPecuniario_v = (if sellTenDays then dailyRate * 10 else 0);
          abonoOneThird_v = (if sellTenDays then abonoPecuniario_v / 3 else 0);
          currentGross = vacationValue_v + oneThirdBonus_v;
          inss_v = calculateINSS currentGross;
          irrf_v = calculateIRRF currentGross inss_v dependents
      in \<lparr> baseSalary = baseForVacation,
           vacationValue = vacationValue_v + unusedVacationValue,
           oneThirdBonus = oneThirdBonus_v + unusedVacationOneThird,
           VacationResult.grossTotal =
             currentGross + unusedVacationValue + unusedVacationOneThird
               + abonoPecuniario_v + abonoOneThird_v,
           VacationResult.inss = inss_v,
           VacationResult.irrf = irrf_v,
           VacationResult.netTotal =
             (currentGross - inss_v - irrf_v) + unusedVacationValue + unusedVacationOneThird
               + abonoPecuniario_v + abonoOneThird_v,
           abonoPecuniario = abonoPecuniario_v,
           abonoOneThird = abonoOneThird_v \<rparr>)"

text \<open>
  \<^verbatim>\<open>calculateOvertime\<close> does not guard its divisor. In JavaScript a zero
  \<^verbatim>\<open>monthlyHours\<close> gives \<^verbatim>\<open>Infinity\<close> or \<^verbatim>\<open>NaN\<close>, which a \<^typ>\<open>real\<close> cannot
  hold, so the model returns \<open>None\<close> there.
\<close>

definition calculateOvertime :: "real \<Rightarrow> real \<Rightarrow> real \<Rightarrow> real \<Rightarrow> OvertimeResult option" where
  "calculateOvertime salary monthlyHours overtimeHours percentage =
     (if monthlyHours = 0 then None
      else
        (let hourlyRate_v = salary / monthlyHours;
             overtimeRate = hourlyRate_v * (1 + percentage / 100);
             overtimeValue_v = overtimeRate * overtimeHours
         in Some \<lparr> hourlyRate = hourlyRate_v,
                   overtimeValue = overtimeValue_v,
                   totalValue = overtimeValue_v \<rparr>))"

subsection \<open>Termination\<close>

text \<open>
  The local computations of \<^verbatim>\<open>calculateTermination\<close>, each under the name of the
  variable it ends in. \<open>diffDaysTotal\<close> is never negative, so \<open>div\<close> and \<open>mod\<close> on it
  are JavaScript's \<^verbatim>\<open>Math.floor(x / 30)\<close> and \<^verbatim>\<open>x % 30\<close>.
\<close>

definition diffDaysTotal :: "Date \<Rightarrow> Date \<Rightarrow> int" where
  "diffDaysTotal startDate endDate =
     (let diffTime = \<bar>getTime endDate - getTime startDate\<bar>
      in \<lceil>real_of_int diffTime / (1000 * 60 * 60 * 24)\<rceil>)"

definition thirteenthMonths :: "Date \<Rightarrow> Date \<Rightarrow> int" where
  "thirteenthMonths startDate endDate =
     (let endDay = getDate endDate;
          endMonth = getMonth endDate + 1;
          counted =
            (if getFullYear endDate = getFullYear startDate then
               (let startMonth = getMonth startDate + 1;
                    startDay = getDate startDate;
                    m0 = endMonth - startMonth;
                    m1 = (if startDay \<le> 15 then m0 + 1 else m0);
                    m2 = (if endDay < 15 then m1 - 1 else m1)
                in m2)
             else (if endDay \<ge> 15 then endMonth else endMonth - 1))
      in max 0 counted)"

definition finalVacationMonths :: "Date \<Rightarrow> Date \<Rightarrow> int" where
  "finalVacationMonths startDate endDate =
     (let days = diffDaysTotal startDate endDate;
          vacationMonths = days div 30;
          remainingDays = days mod 30
      in if remainingDays \<ge> 15 then vacationMonths + 1 else vacationMonths)"

definition calculateTermination ::
  "real \<Rightarrow> Date \<Rightarrow> Date \<Rightarrow> TerminationType \<Rightarrow> real \<Rightarrow> real \<Rightarrow> real \<Rightarrow> TerminationResult" where
  "calculateTermination salary startDate endDate ttype fgtsBalance unusedVacationDays bonuses =
     (let base = salary + bonuses;
          endDay = getDate endDate;
          salaryBalance_v = (base / 30) * of_int endDay;
          proportionalThirteenth_v = (base / 12) * of_int (thirteenthMonths startDate endDate);
          proportionalVacation_v =
            (base / 12) * of_int (finalVacationMonths startDate endDate mod 12);
          vacationOneThird_v = proportionalVacation_v / 3;
          unusedVacationValue = (base / 30) * unusedVacationDays;
          unusedVacationOneThird = unusedVacationValue / 3;
          noticePeriod_v =
            (if ttype = sem_justa_causa then base
             else if ttype = comum_acordo then base * 0.5 else 0);
          fgtsFine_v =
            (if ttype = sem_justa_causa then fgtsBalance * 0.4
             else if ttype = comum_acordo then fgtsBalance * 0.2 else 0);
          grossTotal_v =
            salaryBalance_v + proportionalThirteenth_v + proportionalVacation_v
              + vacationOneThird_v + unusedVacationValue + unusedVacationOneThird
              + noticePeriod_v + fgtsFine_v;
          taxableAmount = salaryBalance_v + proportionalThirteenth_v;
          inss_v = calculateINSS taxableAmount;
          irrf_v = calculateIRRF taxableAmount inss_v 0
      in \<lparr> salaryBalance = salaryBalance_v,
           proportionalThirteenth = proportionalThirteenth_v,
           proportionalVacation = proportionalVacation_v + unusedVacationValue,
           vacationOneThird = vacationOneThird_v + unusedVacationOneThird,
           noticePeriod = noticePeriod_v,
           fgtsFine = fgtsFine_v,
           grossTotal = grossTotal_v,
           inss = inss_v,
           irrf = irrf_v,
           netTotal = grossTotal_v - inss_v - irrf_v \<rparr>)"


subsection \<open>The termination months, in the words of the specification\<close>

text \<open>
  The specification counts the 13th-salary months with \<open>monthOf\<close> running from 1 to 12,
  as one sum of adjustments, clamped at zero. It is compared with \<open>thirteenthMonths\<close>
  below.
\<close>

definition monthOf :: "Date \<Rightarrow> int" where
  "monthOf d = getMonth d + 1"

definition spec_thirteenth_months :: "Date \<Rightarrow> Date \<Rightarrow> int" where
  "spec_thirteenth_months startDate endDate =
     max 0
       (if getFullYear endDate = getFullYear startDate
        then monthOf endDate - monthOf startDate
               + (if getDate startDate \<le> 15 then 1 else 0)
               - (if getDate endDate < 15 then 1 else 0)
        else (if getDate endDate \<ge> 15 then monthOf endDate else monthOf endDate - 1))"

text \<open>
  The proportional-vacation months of the specification, from the number of days worked:
  whole 30-day units, one more for a remainder of 15 days or more, then \<open>mod 12\<close>.
\<close>

definition spec_vacation_months :: "int \<Rightarrow> int" where
  "spec_vacation_months totalDays =
     (totalDays div 30 + (if totalDays mod 30 \<ge> 15 then 1 else 0)) mod 12"

section \<open>Properties\<close>

subsection \<open>Fields of the results\<close>

lemma diffDaysTotal_nonneg: "0 \<le> diffDaysTotal startDate endDate"
proof -
  have "0 \<le> real_of_int \<bar>getTime endDate - getTime startDate\<bar> / (1000 * 60 * 60 * 24)"
    by simp
  then show ?thesis
    unfolding diffDaysTotal_def Let_def by (simp only: zero_le_ceiling)
qed

lemma vacation_taxes:
  "VacationResult.inss (calculateVacation salary days sell deps u bonuses) =
     calculateINSS ((salary + bonuses) / 30 * days + (salary + bonuses) / 30 * days / 3)"
  "VacationResult.irrf (calculateVacation salary days sell deps u bonuses) =
     calculateIRRF ((salary + bonuses) / 30 * days + (salary + bonuses) / 30 * days / 3)
       (calculateINSS ((salary + bonuses) / 30 * days + (salary + bonuses) / 30 * days / 3))
       deps"
  by (simp_all add: calculateVacation_def Let_def ac_simps)

lemma vacation_totals:
  "VacationResult.grossTotal (calculateVacation salary days sell deps u bonuses) =
     (salary + bonuses) / 30 * days + (salary + bonuses) / 30 * days / 3
       + (salary + bonuses) / 30 * u + (salary + bonuses) / 30 * u / 3
       + (if sell then (salary + bonuses) / 30 * 10 else 0)
       + (if sell then (salary + bonuses) / 30 * 10 / 3 else 0)"
  "VacationResult.netTotal (calculateVacation salary days sell deps u bonuses) =
     ((salary + bonuses) / 30 * days + (salary + bonuses) / 30 * days / 3
        - VacationResult.inss (calculateVacation salary days sell deps u bonuses)
        - VacationResult.irrf (calculateVacation salary days sell deps u bonuses))
       + (salary + bonuses) / 30 * u + (salary + bonuses) / 30 * u / 3
       + (if sell then (salary + bonuses) / 30 * 10 else 0)
       + (if sell then (salary + bonuses) / 30 * 10 / 3 else 0)"
  by (simp_all add: calculateVacation_def Let_def ac_simps)

lemma thirteenthMonths_spec:
  "thirteenthMonths startDate endDate = spec_thirteenth_months startDate endDate"
proof (cases "getFullYear endDate = getFullYear startDate")
  case True
  then show ?thesis
    by (simp add: thirteenthMonths_def spec_thirteenth_months_def monthOf_def Let_def)
next
  case False
  then show ?thesis
    by (simp add: thirteenthMonths_def spec_thirteenth_months_def monthOf_def Let_def)
qed

lemma finalVacationMonths_spec:
  "finalVacationMonths startDate endDate mod 12 =
     spec_vacation_months (diffDaysTotal startDate endDate)"
  by (simp add: finalVacationMonths_def spec_vacation_months_def Let_def)

lemma calculateINSS_upper: "calculateINSS base \<le> 908.8586"
  by (simp add: calculateINSS_def)

text \<open>The bases at which the contribution stays within 908.85.\<close>

lemma calculateINSS_le_ceiling_iff:
  "(calculateINSS base \<le> 908.85) = ((base - 4000.03) * 0.14 \<le> 530.03 \<or> 7786.02 < base)"
  unfolding calculateINSS_def by (auto simp: field_simps)

lemma calculateIRRF_tiers:
  "calculateIRRF salary inss_paid dependents =
     (if salary - inss_paid - dependents * 189.59 \<le> 2259.20 then 0
      else if salary - inss_paid - dependents * 189.59 \<le> 2826.65
        then (salary - inss_paid - dependents * 189.59) * 0.075 - 169.44
      else if salary - inss_paid - dependents * 189.59 \<le> 3751.05
        then (salary - inss_paid - dependents * 189.59) * 0.15 - 381.44
      else if salary - inss_paid - dependents * 189.59 \<le> 4664.68
        then (salary - inss_paid - dependents * 189.59) * 0.225 - 662.77
      else (salary - inss_paid - dependents * 189.59) * 0.275 - 896.00)"
  by (simp add: calculateIRRF_def Let_def)

lemma calculateIRRF_pos:
  "0 < calculateIRRF salary inss_paid dependents
     \<or> salary - inss_paid - dependents * 189.59 \<le> 2259.20"
  by (simp add: calculateIRRF_tiers)


subsection \<open>The statutory contribution\<close>

text \<open>
  Claim C1, as stated: the contribution is exactly the table's value at each documented
  boundary, 105.90 at 1412.00, 218.82 at 2666.68, 378.82 at 4000.03, 908.85 at 7786.02 and
  908.85 at 100000. The five equations do not hold together: a boundary belongs to the
  tier below it, whose own formula gives 218.8212 at 2666.68.
\<close>

theorem C1_boundaries_counterexample:
  "\<not> (calculateINSS 1412.00 = 105.90 \<and> calculateINSS 2666.68 = 218.82
      \<and> calculateINSS 4000.03 = 378.82 \<and> calculateINSS 7786.02 = 908.85
      \<and> calculateINSS 100000 = 908.85)"
proof -
  have "calculateINSS 2666.68 = 218.8212"
    by (simp add: calculateINSS_def)
  then show ?thesis by simp
qed

text \<open>
  Claim C1, amended: the contribution is 105.90 at 1412.00 and 908.85 at 100000, and at
  the two inner boundaries it is the value of the lower tier's formula, no amount being
  rounded to cents: 218.8212 at 2666.68 and 378.822 at 4000.03.
\<close>

theorem C1_boundaries:
  "calculateINSS 1412.00 = 105.90 \<and> calculateINSS 2666.68 = 218.8212
     \<and> calculateINSS 4000.03 = 378.822 \<and> calculateINSS 100000 = 908.85"
  by (simp add: calculateINSS_def)

text \<open>
  Claim C4: the contribution never exceeds the ceiling 908.85. At the top boundary
  7786.02 the fourth tier's formula is still the one applied, and it gives 908.8586,
  above the amount the function returns for every larger base.
\<close>

theorem C4_above_ceiling:
  "calculateINSS 7786.02 = 908.8586 \<and> \<not> calculateINSS 7786.02 \<le> 908.85
     \<and> calculateINSS 7786.03 = 908.85"
  by (simp add: calculateINSS_def)

subsection \<open>The income tax\<close>

text \<open>
  Claim C5, as stated: some input whose taxable base lies in the second tier, above
  2259.20, has a strictly negative tax. There is none: the second tier's formula is zero
  at 2259.20 and grows from there.
\<close>

theorem C5_negative_tax_counterexample:
  "\<not> (\<exists>salary inss_paid dependents.
         2259.20 < salary - inss_paid - dependents * 189.59
       \<and> salary - inss_paid - dependents * 189.59 \<le> 2826.65
       \<and> calculateIRRF salary inss_paid dependents < 0)"
proof
  assume "\<exists>salary inss_paid dependents.
            2259.20 < salary - inss_paid - dependents * 189.59
          \<and> salary - inss_paid - dependents * 189.59 \<le> 2826.65
          \<and> calculateIRRF salary inss_paid dependents < 0"
  then obtain s i d where tier: "2259.20 < s - i - d * 189.59"
    and neg: "calculateIRRF s i d < 0"
    by blast
  from calculateIRRF_pos [of s i d] tier have "0 < calculateIRRF s i d"
    by simp
  with neg show False by simp
qed

text \<open>
  Claim C5, amended: with no clamp in any tier, the tax is still never negative, for any
  salary, contribution and dependents, and it is zero exactly when the taxable base
  \<open>salary - contribution - dependents \<times> 189.59\<close> is at most 2259.20; everywhere in the
  second tier it is strictly positive.
\<close>

theorem C5_tax_nonneg:
  "0 \<le> calculateIRRF salary inss_paid dependents
     \<and> (calculateIRRF salary inss_paid dependents = 0)
         = (salary - inss_paid - dependents * 189.59 \<le> 2259.20)"
  by (simp add: calculateIRRF_tiers)

subsection \<open>Salary\<close>

text \<open>
  Claim C6: the result of \<open>calculateSalary\<close> has
  \<open>netSalary = grossSalary - inss - irrf - otherDiscounts\<close>, so the four amounts add up
  to the gross salary again, \<open>discounts = inss + irrf + otherDiscounts\<close> and
  \<open>fgts = 0.08 \<times> grossSalary\<close>, where \<open>inss\<close> and \<open>irrf\<close> are the two table lookups on
  the gross salary. It holds for all arguments, the non-negative ones among them.
\<close>

theorem C6_salary_invariant:
  fixes gross dependents otherDiscounts :: real
  defines "r \<equiv> calculateSalary gross dependents otherDiscounts"
  shows "netSalary r = gross - SalaryResult.inss r - SalaryResult.irrf r - otherDiscounts
       \<and> netSalary r + SalaryResult.inss r + SalaryResult.irrf r + otherDiscounts = gross
       \<and> discounts r = SalaryResult.inss r + SalaryResult.irrf r + otherDiscounts
       \<and> fgts r = 0.08 * gross
       \<and> grossSalary r = gross
       \<and> SalaryResult.inss r = calculateINSS gross
       \<and> SalaryResult.irrf r = calculateIRRF gross (calculateINSS gross) dependents"
  unfolding r_def calculateSalary_def Let_def by simp


subsection \<open>Vacation\<close>

text \<open>
  Claim C2, as stated: \<open>vacationValue = dailyRate \<times> days\<close> and
  \<open>oneThirdBonus = (dailyRate \<times> days) / 3\<close> with \<open>dailyRate = (salary + bonuses) / 30\<close>,
  for every input. With a salary of 3000, 30 days taken and 15 unused days the two fields
  are 4500 and 1500, not 3000 and 1000.
\<close>

theorem C2_vacation_fields_counterexample:
  "\<not> (vacationValue (calculateVacation 3000 30 False 0 15 0) = (3000 + 0) / 30 * 30
      \<and> oneThirdBonus (calculateVacation 3000 30 False 0 15 0) = (3000 + 0) / 30 * 30 / 3)"
proof -
  have "vacationValue (calculateVacation 3000 30 False 0 15 0) = 4500"
    by (simp add: calculateVacation_def Let_def)
  then show ?thesis by simp
qed

text \<open>
  Claim C2, amended: the two fields hold the current period together with the unused
  days, each at the same daily rate:
  \<open>vacationValue = dailyRate \<times> days + dailyRate \<times> unusedVacationDays\<close> and
  \<open>oneThirdBonus = (dailyRate \<times> days) / 3 + (dailyRate \<times> unusedVacationDays) / 3\<close>,
  with \<open>dailyRate = (salary + bonuses) / 30\<close>.
\<close>

theorem C2_vacation_fields:
  fixes salary days dependents unusedVacationDays bonuses :: real and sellTenDays :: bool
  defines "dailyRate \<equiv> (salary + bonuses) / 30"
  defines "r \<equiv> calculateVacation salary days sellTenDays dependents unusedVacationDays bonuses"
  shows "vacationValue r = dailyRate * days + dailyRate * unusedVacationDays
       \<and> oneThirdBonus r = dailyRate * days / 3 + dailyRate * unusedVacationDays / 3"
  unfolding r_def dailyRate_def calculateVacation_def Let_def by simp

text \<open>
  Claim C8: for fixed salary, days, sellTenDays, dependents and bonuses, and any number
  \<open>u\<close> of unused days, \<open>calculateVacation\<close> returns the same \<open>inss\<close> and \<open>irrf\<close> as
  with no unused days, and \<open>grossTotal\<close> and \<open>netTotal\<close> are each larger than with no
  unused days by exactly \<open>u \<times> dailyRate \<times> 4/3\<close>, with
  \<open>dailyRate = (salary + bonuses) / 30\<close>.
\<close>

theorem C8_unused_days_untaxed:
  fixes salary days dependents u bonuses :: real and sellTenDays :: bool
  defines "dailyRate \<equiv> (salary + bonuses) / 30"
  defines "with_u \<equiv> calculateVacation salary days sellTenDays dependents u bonuses"
  defines "without \<equiv> calculateVacation salary days sellTenDays dependents 0 bonuses"
  shows "VacationResult.inss with_u = VacationResult.inss without
       \<and> VacationResult.irrf with_u = VacationResult.irrf without
       \<and> VacationResult.grossTotal with_u
           = VacationResult.grossTotal without + u * dailyRate * 4 / 3
       \<and> VacationResult.netTotal with_u
           = VacationResult.netTotal without + u * dailyRate * 4 / 3"
proof -
  have taxes: "VacationResult.inss with_u = VacationResult.inss without"
    "VacationResult.irrf with_u = VacationResult.irrf without"
    unfolding with_u_def without_def by (simp_all only: vacation_taxes)
  have gross: "VacationResult.grossTotal with_u
      = VacationResult.grossTotal without + u * dailyRate * 4 / 3"
    unfolding with_u_def without_def dailyRate_def vacation_totals by simp
  have "VacationResult.netTotal with_u
      = VacationResult.netTotal without + u * dailyRate * 4 / 3"
    using taxes unfolding with_u_def without_def dailyRate_def vacation_totals by simp
  with taxes gross show ?thesis by simp
qed

subsection \<open>Termination\<close>

text \<open>
  Claim C3, as stated: \<open>proportionalVacation = (base / 12) \<times> (finalVacationMonths mod 12)\<close>
  and \<open>vacationOneThird\<close> is a third of it, for every input. For a salary of 3000, 100
  days worked (three months of vacation, 750) and 15 unused days, the field is 2250 and
  its third 750, not 750 and 250.
\<close>

theorem C3_termination_vacation_counterexample:
  "\<not> (proportionalVacation
         (calculateTermination 3000
            \<lparr>getTime = 0, getFullYear = 1970, getMonth = 0, getDate = 1\<rparr>
            \<lparr>getTime = 8640000000, getFullYear = 1970, getMonth = 3, getDate = 11\<rparr>
            sem_justa_causa 0 15 0)
        = (3000 + 0) / 12 * real_of_int ((100 div 30 + 0) mod 12)
      \<and> vacationOneThird
         (calculateTermination 3000
            \<lparr>getTime = 0, getFullYear = 1970, getMonth = 0, getDate = 1\<rparr>
            \<lparr>getTime = 8640000000, getFullYear = 1970, getMonth = 3, getDate = 11\<rparr>
            sem_justa_causa 0 15 0)
        = (3000 + 0) / 12 * real_of_int ((100 div 30 + 0) mod 12) / 3)"
proof -
  have "diffDaysTotal \<lparr>getTime = 0, getFullYear = 1970, getMonth = 0, getDate = 1\<rparr>
          \<lparr>getTime = 8640000000, getFullYear = 1970, getMonth = 3, getDate = 11\<rparr> = 100"
    by (simp add: diffDaysTotal_def)
  then have "proportionalVacation
         (calculateTermination 3000
            \<lparr>getTime = 0, getFullYear = 1970, getMonth = 0, getDate = 1\<rparr>
            \<lparr>getTime = 8640000000, getFullYear = 1970, getMonth = 3, getDate = 11\<rparr>
            sem_justa_causa 0 15 0) = 2250"
    by (simp add: calculateTermination_def finalVacationMonths_def Let_def)
  then show ?thesis by simp
qed

text \<open>
  Claim C3, amended: the two fields hold the proportional vacation together with the
  unused-vacation payout:
  \<open>proportionalVacation = (base / 12) \<times> (months mod 12) + (base / 30) \<times> unusedVacationDays\<close>
  and \<open>vacationOneThird\<close> is a third of the first summand plus a third of the second, with
  \<open>base = salary + bonuses\<close> and \<open>months = floor(totalDays / 30)\<close> plus 1 if
  \<open>totalDays mod 30 \<ge> 15\<close>, \<open>totalDays\<close> being the days between the two dates, rounded up.
\<close>

theorem C3_termination_vacation:
  fixes salary fgtsBalance unusedVacationDays bonuses :: real
    and startDate endDate :: Date and ttype :: TerminationType
  defines "base \<equiv> salary + bonuses"
  defines "months \<equiv> spec_vacation_months (diffDaysTotal startDate endDate)"
  defines "r \<equiv> calculateTermination salary startDate endDate ttype fgtsBalance
                  unusedVacationDays bonuses"
  shows "proportionalVacation r
           = base / 12 * real_of_int months + base / 30 * unusedVacationDays
       \<and> vacationOneThird r
           = base / 12 * real_of_int months / 3 + base / 30 * unusedVacationDays / 3"
  unfolding r_def base_def months_def calculateTermination_def Let_def
  by (simp add: finalVacationMonths_spec)


text \<open>
  Claim C7: the result of \<open>calculateTermination\<close> has
  \<open>inss = calculateINSS (salaryBalance + proportionalThirteenth)\<close> and
  \<open>irrf = calculateIRRF (salaryBalance + proportionalThirteenth) inss 0\<close>, with zero
  dependents, and \<open>netTotal = grossTotal - inss - irrf\<close>. The two taxes are on that
  portion only: they are the same for any other termination type, fund balance and
  number of unused vacation days.
\<close>

theorem C7_termination_taxes:
  fixes salary fgtsBalance unusedVacationDays bonuses fgtsBalance' unusedVacationDays' :: real
    and startDate endDate :: Date and ttype ttype' :: TerminationType
  defines "r \<equiv> calculateTermination salary startDate endDate ttype fgtsBalance
                  unusedVacationDays bonuses"
  defines "r' \<equiv> calculateTermination salary startDate endDate ttype' fgtsBalance'
                  unusedVacationDays' bonuses"
  shows "TerminationResult.inss r
           = calculateINSS (salaryBalance r + proportionalThirteenth r)
       \<and> TerminationResult.irrf r
           = calculateIRRF (salaryBalance r + proportionalThirteenth r)
               (TerminationResult.inss r) 0
       \<and> TerminationResult.netTotal r
           = TerminationResult.grossTotal r - TerminationResult.inss r
               - TerminationResult.irrf r
       \<and> TerminationResult.inss r' = TerminationResult.inss r
       \<and> TerminationResult.irrf r' = TerminationResult.irrf r"
  unfolding r_def r'_def calculateTermination_def Let_def by simp

text \<open>
  Claim C9: with \<open>base = salary + bonuses\<close>, the pair \<open>(noticePeriod, fgtsFine)\<close> of the
  result is \<open>(base, 0.4 \<times> fgtsBalance)\<close> for \<open>sem-justa-causa\<close>,
  \<open>(0.5 \<times> base, 0.2 \<times> fgtsBalance)\<close> for \<open>comum-acordo\<close>, and \<open>(0, 0)\<close> for both
  \<open>com-justa-causa\<close> and \<open>pedido-demissao\<close>.
\<close>

theorem C9_termination_type_table:
  fixes salary fgtsBalance unusedVacationDays bonuses :: real
    and startDate endDate :: Date
  defines "base \<equiv> salary + bonuses"
  defines "settle \<equiv> \<lambda>ttype. calculateTermination salary startDate endDate ttype fgtsBalance
                  unusedVacationDays bonuses"
  shows "noticePeriod (settle sem_justa_causa) = base
       \<and> fgtsFine (settle sem_justa_causa) = 0.4 * fgtsBalance
       \<and> noticePeriod (settle comum_acordo) = 0.5 * base
       \<and> fgtsFine (settle comum_acordo) = 0.2 * fgtsBalance
       \<and> noticePeriod (settle com_justa_causa) = 0
       \<and> fgtsFine (settle com_justa_causa) = 0
       \<and> noticePeriod (settle pedido_demissao) = 0
       \<and> fgtsFine (settle pedido_demissao) = 0"
proof -
  have without_cause: "noticePeriod (settle sem_justa_causa) = base"
    "fgtsFine (settle sem_justa_causa) = 0.4 * fgtsBalance"
    unfolding settle_def base_def calculateTermination_def Let_def by simp_all
  have agreement: "noticePeriod (settle comum_acordo) = 0.5 * base"
    "fgtsFine (settle comum_acordo) = 0.2 * fgtsBalance"
    unfolding settle_def base_def calculateTermination_def Let_def by simp_all
  have for_cause_or_resigned: "noticePeriod (settle com_justa_causa) = 0"
    "fgtsFine (settle com_justa_causa) = 0"
    "noticePeriod (settle pedido_demissao) = 0"
    "fgtsFine (settle pedido_demissao) = 0"
    unfolding settle_def calculateTermination_def Let_def by simp_all
  from without_cause agreement for_cause_or_resigned show ?thesis by blast
qed

text \<open>
  Claim C10: the 13th-salary months are counted as the specification says. In the same
  year, \<open>monthOf endDate - monthOf startDate\<close>, plus 1 if the start day is at most 15,
  minus 1 if the end day is below 15; in different years, \<open>monthOf endDate\<close> if the end
  day is at least 15 and \<open>monthOf endDate - 1\<close> otherwise; then clamped at zero. And
  \<open>proportionalThirteenth = ((salary + bonuses) / 12) \<times> months\<close>.
\<close>

theorem C10_thirteenth_months:
  "proportionalThirteenth
     (calculateTermination salary startDate endDate ttype fgtsBalance unusedVacationDays bonuses)
     = (salary + bonuses) / 12 * real_of_int (spec_thirteenth_months startDate endDate)
   \<and> 0 \<le> spec_thirteenth_months startDate endDate"
proof -
  have "proportionalThirteenth
     (calculateTermination salary startDate endDate ttype fgtsBalance unusedVacationDays bonuses)
     = (salary + bonuses) / 12 * real_of_int (thirteenthMonths startDate endDate)"
    by (simp add: calculateTermination_def Let_def)
  moreover have "0 \<le> spec_thirteenth_months startDate endDate"
    by (simp add: spec_thirteenth_months_def)
  ultimately show ?thesis
    by (simp only: thirteenthMonths_spec)
qed

subsection \<open>The worked examples of the specification\<close>

lemma vacation_example:
  "vacationValue (calculateVacation 3000 30 False 0 0 0) = 3000"
  "oneThirdBonus (calculateVacation 3000 30 False 0 0 0) = 1000"
  "VacationResult.inss (calculateVacation 3000 30 False 0 0 0) = calculateINSS 4000"
  by (simp_all add: calculateVacation_def Let_def)

lemma termination_example:
  "fgtsFine (calculateTermination 3000 startDate endDate sem_justa_causa 5000 0 0) = 2000"
  "noticePeriod (calculateTermination 3000 startDate endDate sem_justa_causa 5000 0 0) = 3000"
  by (simp_all add: calculateTermination_def Let_def)

lemma overtime_example:
  "calculateOvertime 3000 220 10 50 =
     Some \<lparr>hourlyRate = 150 / 11, overtimeValue = 2250 / 11, totalValue = 2250 / 11\<rparr>"
  by (simp add: calculateOvertime_def Let_def)

end
